theory Spec2Isabelle
  imports Main "HOL-Library.Word"
begin

unbundle bit_operations_syntax

section \<open>The constants of \<^verbatim>\<open>crb_patch/tpm.h\<close>\<close>

text \<open>
  The header is a list of object-like macros and two structure declarations.
  A macro whose replacement is a decimal literal is a C \<^verbatim>\<open>int\<close> constant; none of
  them comes near the limits of a 32-bit \<^verbatim>\<open>int\<close>, so they are modelled as \<^typ>\<open>int\<close>.
\<close>

subsection \<open>Header size and timeouts (lines 16 to 23)\<close>

definition TPM_HEADER_SIZE :: int where
  "TPM_HEADER_SIZE = 10"

definition TPM2_TIMEOUT_A :: int where
  "TPM2_TIMEOUT_A = 750"

definition TPM2_TIMEOUT_B :: int where
  "TPM2_TIMEOUT_B = 2000"

definition TPM2_TIMEOUT_C :: int where
  "TPM2_TIMEOUT_C = 750"

definition TPM2_TIMEOUT_D :: int where
  "TPM2_TIMEOUT_D = 750"

subsection \<open>ACPI start methods (lines 32 to 53)\<close>

text \<open>
  Each of these is defined under \<^verbatim>\<open>#ifndef\<close>: the value below is the one the header
  supplies when the including kernel has not defined the name already.
\<close>

definition ACPI_TPM2_START_METHOD :: int where
  "ACPI_TPM2_START_METHOD = 2"

definition ACPI_TPM2_MEMORY_MAPPED :: int where
  "ACPI_TPM2_MEMORY_MAPPED = 6"

definition ACPI_TPM2_COMMAND_BUFFER :: int where
  "ACPI_TPM2_COMMAND_BUFFER = 7"

definition ACPI_TPM2_COMMAND_BUFFER_WITH_START_METHOD :: int where
  "ACPI_TPM2_COMMAND_BUFFER_WITH_START_METHOD = 8"

definition ACPI_TPM2_COMMAND_BUFFER_WITH_ARM_SMC :: int where
  "ACPI_TPM2_COMMAND_BUFFER_WITH_ARM_SMC = 11"

definition ACPI_TPM2_COMMAND_BUFFER_WITH_PLUTON :: int where
  "ACPI_TPM2_COMMAND_BUFFER_WITH_PLUTON = 13"

definition ACPI_TPM2_CRB_WITH_ARM_FFA :: int where
  "ACPI_TPM2_CRB_WITH_ARM_FFA = 15"

text \<open>The seven start-method codes in the order of the header.\<close>

definition start_methods :: "int list" where
  "start_methods =
    [ACPI_TPM2_START_METHOD,
     ACPI_TPM2_MEMORY_MAPPED,
     ACPI_TPM2_COMMAND_BUFFER,
     ACPI_TPM2_COMMAND_BUFFER_WITH_START_METHOD,
     ACPI_TPM2_COMMAND_BUFFER_WITH_ARM_SMC,
     ACPI_TPM2_COMMAND_BUFFER_WITH_PLUTON,
     ACPI_TPM2_CRB_WITH_ARM_FFA]"

subsection \<open>Flag bits (lines 25 to 30)\<close>

text \<open>
  Modelled from the spec: the macro \<^verbatim>\<open>BIT\<close> is used by the header but not defined in
  it (it is the kernel's, from \<^verbatim>\<open>linux/bits.h\<close>, where \<^verbatim>\<open>BIT(nr)\<close> is
  \<^verbatim>\<open>1UL << nr\<close>). The specification speaks of a set of flags with separate members,
  so \<^verbatim>\<open>BIT(nr)\<close> is the \<^verbatim>\<open>unsigned long\<close> in which bit \<open>nr\<close> alone is set.
\<close>

definition BIT :: "nat \<Rightarrow> 64 word" where
  "BIT nr = push_bit nr 1"

definition TPM_CHIP_FLAG_TPM2 :: "64 word" where
  "TPM_CHIP_FLAG_TPM2 = BIT 0"

definition TPM_CHIP_FLAG_HWRNG_DISABLED :: "64 word" where
  "TPM_CHIP_FLAG_HWRNG_DISABLED = BIT 1"

definition TPM_OPS_AUTO_STARTUP :: "64 word" where
  "TPM_OPS_AUTO_STARTUP = BIT 0"

section \<open>The structures of \<^verbatim>\<open>crb_patch/tpm.h\<close>\<close>

text \<open>
  C types: \<^verbatim>\<open>u8\<close> is an 8-bit word, \<^verbatim>\<open>unsigned int\<close> and \<^verbatim>\<open>int\<close> are 32-bit words
  (an \<^verbatim>\<open>int\<close> is read with \<^const>\<open>sint\<close>), \<^verbatim>\<open>size_t\<close> and every pointer are 64-bit
  words. A pointer is the address it holds; what it points to lives in a store.
\<close>

type_synonym u8 = "8 word"
type_synonym c_uint = "32 word"
type_synonym c_int = "32 word"
type_synonym size_t = "64 word"
type_synonym addr = "64 word"

subsection \<open>\<^verbatim>\<open>struct tpm_chip\<close> (lines 60 to 66)\<close>

text \<open>
  \<^verbatim>\<open>struct device\<close> is the kernel's and is embedded by value: its contents are the
  type parameter \<open>'dev\<close>. \<^verbatim>\<open>acpi_handle\<close> is an untyped pointer, and \<^verbatim>\<open>ops\<close> points
  to a constant \<^verbatim>\<open>struct tpm_class_ops\<close>.
\<close>

record 'dev tpm_chip =
  dev :: 'dev
  acpi_dev_handle :: addr
  flags :: c_uint
  locality :: c_int
  ops :: addr

subsection \<open>\<^verbatim>\<open>struct tpm_class_ops\<close> (lines 69 to 82)\<close>

text \<open>
  Every operation is a function pointer whose first argument is the address of the chip.
  The function behind it may read and write the chip, the buffers it is handed and the
  device: it is a transformer of a store \<open>'s\<close> that returns its C result. A buffer
  argument (\<^verbatim>\<open>u8 *buf\<close>) is the address of the buffer in that store.
\<close>

record 's tpm_class_ops =
  flags :: c_uint
  status :: "addr \<Rightarrow> 's \<Rightarrow> u8 \<times> 's"
  recv :: "addr \<Rightarrow> addr \<Rightarrow> size_t \<Rightarrow> 's \<Rightarrow> c_int \<times> 's"
  send :: "addr \<Rightarrow> addr \<Rightarrow> size_t \<Rightarrow> size_t \<Rightarrow> 's \<Rightarrow> c_int \<times> 's"
  cancel :: "addr \<Rightarrow> 's \<Rightarrow> 's"
  req_canceled :: "addr \<Rightarrow> u8 \<Rightarrow> 's \<Rightarrow> bool \<times> 's"
  go_idle :: "addr \<Rightarrow> 's \<Rightarrow> c_int \<times> 's"
  cmd_ready :: "addr \<Rightarrow> 's \<Rightarrow> c_int \<times> 's"
  request_locality :: "addr \<Rightarrow> c_int \<Rightarrow> 's \<Rightarrow> c_int \<times> 's"
  relinquish_locality :: "addr \<Rightarrow> c_int \<Rightarrow> 's \<Rightarrow> c_int \<times> 's"
  req_complete_mask :: u8
  req_complete_val :: u8

section \<open>The specification's view of the structures\<close>

text \<open>
  The specification describes a Device Handle by three attributes: its flags, the
  locality it holds and the reference to its Transport Binding. This is that view of a
  \<^verbatim>\<open>struct tpm_chip\<close>, to be compared with the structure itself.
\<close>

definition spec_device_handle :: "'dev tpm_chip \<Rightarrow> c_uint \<times> c_int \<times> addr" where
  "spec_device_handle chip =
    (tpm_chip.flags chip, locality chip, ops chip)"

text \<open>
  The specification describes a Transport Binding by nine operations (status, send, recv,
  cancel, is-request-canceled, go-idle, cmd-ready, request-locality, relinquish-locality)
  and the two completion fields. This is that view of a \<^verbatim>\<open>struct tpm_class_ops\<close>.
\<close>

definition spec_transport_binding ::
  "'s tpm_class_ops \<Rightarrow>
     (addr \<Rightarrow> 's \<Rightarrow> u8 \<times> 's) \<times>
     (addr \<Rightarrow> addr \<Rightarrow> size_t \<Rightarrow> size_t \<Rightarrow> 's \<Rightarrow> c_int \<times> 's) \<times>
     (addr \<Rightarrow> addr \<Rightarrow> size_t \<Rightarrow> 's \<Rightarrow> c_int \<times> 's) \<times>
     (addr \<Rightarrow> 's \<Rightarrow> 's) \<times>
     (addr \<Rightarrow> u8 \<Rightarrow> 's \<Rightarrow> bool \<times> 's) \<times>
     (addr \<Rightarrow> 's \<Rightarrow> c_int \<times> 's) \<times>
     (addr \<Rightarrow> 's \<Rightarrow> c_int \<times> 's) \<times>
     (addr \<Rightarrow> c_int \<Rightarrow> 's \<Rightarrow> c_int \<times> 's) \<times>
     (addr \<Rightarrow> c_int \<Rightarrow> 's \<Rightarrow> c_int \<times> 's) \<times>
     u8 \<times> u8" where
  "spec_transport_binding b =
    (status b, send b, recv b, cancel b, req_canceled b, go_idle b, cmd_ready b,
     request_locality b, relinquish_locality b,
     req_complete_mask b, req_complete_val b)"

text \<open>
  Modelled from the spec: the Status Poller's completion test, which the header does not
  define (it declares only the two fields and the status operation). The specification
  gives it as \<^verbatim>\<open>(status & mask) == value\<close>. The three operands are \<^verbatim>\<open>u8\<close>, so C
  promotes each of them to \<^verbatim>\<open>int\<close> before the \<^verbatim>\<open>&\<close> and the comparison: the test is
  on the promoted values.
\<close>

definition req_complete :: "'s tpm_class_ops \<Rightarrow> u8 \<Rightarrow> bool" where
  "req_complete b st \<longleftrightarrow>
    (uint st AND uint (req_complete_mask b)) = uint (req_complete_val b)"

subsection \<open>Concrete instances\<close>

text \<open>
  A binding over a one-point store: every operation returns 0 (or \<open>False\<close>) and the
  status byte is 0; completion is signalled by bit 0 of the status.
\<close>

definition quiet_ops :: "unit tpm_class_ops" where
  "quiet_ops =
    \<lparr>tpm_class_ops.flags = 0,
     status = (\<lambda>chip s. (0, s)),
     recv = (\<lambda>chip buf count s. (0, s)),
     send = (\<lambda>chip buf bufsiz len s. (0, s)),
     cancel = (\<lambda>chip s. s),
     req_canceled = (\<lambda>chip st s. (False, s)),
     go_idle = (\<lambda>chip s. (0, s)),
     cmd_ready = (\<lambda>chip s. (0, s)),
     request_locality = (\<lambda>chip loc s. (0, s)),
     relinquish_locality = (\<lambda>chip loc s. (0, s)),
     req_complete_mask = 1,
     req_complete_val = 1\<rparr>"

text \<open>A chip with no flag set, locality 0, and its binding at address \<open>0x1000\<close>.\<close>

definition plain_chip :: "addr \<Rightarrow> unit tpm_chip" where
  "plain_chip h =
    \<lparr>dev = (), acpi_dev_handle = h, tpm_chip.flags = 0, locality = 0, ops = 0x1000\<rparr>"

text \<open>
  A binding over a store that is the device's status register. Status reads the
  register, send sets its completion bit, recv and go-idle clear it, cancel clears the
  whole register; request-locality grants the locality it is asked for.
\<close>

definition latch_ops :: "c_uint \<Rightarrow> u8 tpm_class_ops" where
  "latch_ops f =
    \<lparr>tpm_class_ops.flags = f,
     status = (\<lambda>chip s. (s, s)),
     recv = (\<lambda>chip buf count s. (ucast count, s AND NOT 1)),
     send = (\<lambda>chip buf bufsiz len s. (0, s OR 1)),
     cancel = (\<lambda>chip s. 0),
     req_canceled = (\<lambda>chip st s. (st = 0, s)),
     go_idle = (\<lambda>chip s. (0, s AND NOT 1)),
     cmd_ready = (\<lambda>chip s. (0, s)),
     request_locality = (\<lambda>chip loc s. (loc, s)),
     relinquish_locality = (\<lambda>chip loc s. (0, s)),
     req_complete_mask = 1,
     req_complete_val = 1\<rparr>"

text \<open>A chip for device \<open>n\<close> with no flag set and no locality number but 0.\<close>

definition bare_chip :: "nat \<Rightarrow> addr \<Rightarrow> nat tpm_chip" where
  "bare_chip n h =
    \<lparr>dev = n, acpi_dev_handle = h, tpm_chip.flags = 0, locality = 0, ops = 0x1000\<rparr>"

text \<open>
  A TPM2 chip whose device is a number, with both chip flags set, holding locality 2.
\<close>

definition tpm2_chip :: "nat tpm_chip" where
  "tpm2_chip =
    \<lparr>dev = 5, acpi_dev_handle = 0x2000, tpm_chip.flags = 3, locality = 2, ops = 0x1000\<rparr>"

section \<open>Properties of the constants\<close>

text \<open>
  C4. The four timeout durations are A = 750, B = 2000, C = 750 and D = 750
  milliseconds, and each of them is positive.
\<close>

theorem timeout_profile_values:
  "TPM2_TIMEOUT_A = 750 \<and> TPM2_TIMEOUT_B = 2000 \<and>
   TPM2_TIMEOUT_C = 750 \<and> TPM2_TIMEOUT_D = 750 \<and>
   0 < TPM2_TIMEOUT_A \<and> 0 < TPM2_TIMEOUT_B \<and>
   0 < TPM2_TIMEOUT_C \<and> 0 < TPM2_TIMEOUT_D"
  by (simp add: TPM2_TIMEOUT_A_def TPM2_TIMEOUT_B_def
      TPM2_TIMEOUT_C_def TPM2_TIMEOUT_D_def)

text \<open>
  C9. The start methods are identified by a fixed set of integer codes
  (2, 6, 7, 8, 11, 13 and 15), and the codes are pairwise distinct.
\<close>

theorem start_methods_distinct:
  "start_methods = [2, 6, 7, 8, 11, 13, 15] \<and> distinct start_methods"
  by (simp add: start_methods_def ACPI_TPM2_START_METHOD_def
      ACPI_TPM2_MEMORY_MAPPED_def ACPI_TPM2_COMMAND_BUFFER_def
      ACPI_TPM2_COMMAND_BUFFER_WITH_START_METHOD_def
      ACPI_TPM2_COMMAND_BUFFER_WITH_ARM_SMC_def
      ACPI_TPM2_COMMAND_BUFFER_WITH_PLUTON_def
      ACPI_TPM2_CRB_WITH_ARM_FFA_def)

text \<open>
  C10. The size of a TPM command header is the constant 10 (bytes).
\<close>

theorem tpm_header_size_is_10:
  "TPM_HEADER_SIZE = 10"
  by (simp add: TPM_HEADER_SIZE_def)

section \<open>Properties of the structures\<close>

text \<open>
  C3. For every status byte, the completion test holds exactly when the status masked
  with the binding's completion mask is the binding's completion value; the status that
  the status operation returns, the mask and the value are single bytes.
\<close>

theorem req_complete_iff:
  "(req_complete b st \<longleftrightarrow> (st AND req_complete_mask b) = req_complete_val b) \<and>
   uint st < 256 \<and>
   uint (fst (status b chip s)) < 256 \<and>
   uint (req_complete_mask b) < 256 \<and>
   uint (req_complete_val b) < 256"
proof -
  have "req_complete b st \<longleftrightarrow> (st AND req_complete_mask b) = req_complete_val b"
    by (simp add: req_complete_def word_uint_eq_iff uint_and)
  moreover have "uint w < 256" for w :: u8
    using uint_bounded [of w] by simp
  ultimately show ?thesis
    by simp
qed







end
